theory Spec2Isabelle
  imports Complex_Main "HOL-Library.AList"
begin

section \<open>Messages\<close>

text \<open>
  Every script decodes an inbound frame with \<^verbatim>\<open>json.loads\<close> and handles the result as a
  Python \<^verbatim>\<open>dict\<close>. A JSON value is one of the six JSON shapes; a message is a JSON object,
  kept as an association list (the first binding of a key is the one looked up).
  Numbers are kept in exact arithmetic: the rounding of Python's binary floating point
  is not part of the model.
\<close>

datatype jval =
    JNull
  | JBool bool
  | JNum real
  | JStr string
  | JArr "jval list"
  | JObj "(string \<times> jval) list"

type_synonym message = "(string \<times> jval) list"

text \<open>\<^verbatim>\<open>d.get(k)\<close>: the value bound to \<open>k\<close>, Python's \<^verbatim>\<open>None\<close> (here \<open>JNull\<close>) otherwise.\<close>

definition py_get :: "message \<Rightarrow> string \<Rightarrow> jval" where
  "py_get d k = (case map_of d k of None \<Rightarrow> JNull | Some v \<Rightarrow> v)"

text \<open>\<^verbatim>\<open>d.get(k, default)\<close>.\<close>

definition py_get_default :: "message \<Rightarrow> string \<Rightarrow> jval \<Rightarrow> jval" where
  "py_get_default d k dflt = (case map_of d k of None \<Rightarrow> dflt | Some v \<Rightarrow> v)"

text \<open>\<^verbatim>\<open>v in names\<close> for a list of string constants: only a string can be equal to one.\<close>

definition py_in :: "jval \<Rightarrow> string list \<Rightarrow> bool" where
  "py_in v names = (v \<in> set (map JStr names))"

text \<open>An optional string argument (\<^verbatim>\<open>str | None\<close>) as the value Python compares with.\<close>

definition str_or_none :: "string option \<Rightarrow> jval" where
  "str_or_none s = (case s of None \<Rightarrow> JNull | Some x \<Rightarrow> JStr x)"

text \<open>Truth value of \<^verbatim>\<open>if order_id:\<close>: \<^verbatim>\<open>None\<close> and the empty string are false.\<close>

definition truthy :: "string option \<Rightarrow> bool" where
  "truthy s = (case s of None \<Rightarrow> False | Some x \<Rightarrow> x \<noteq> [])"

section \<open>The response correlator\<close>

text \<open>
  Both correlators are the loop
  \<^verbatim>\<open>while time.time() - start_time < timeout: message = await wait_for(queue.get(), 1.0) ...\<close>.
  The clock and the queue are the environment's. A wait is given the list of the
  iterations the loop gets to run before its guard fails: \<open>Some m\<close> when
  \<^verbatim>\<open>queue.get()\<close> delivered \<open>m\<close>, \<open>None\<close> when the one-second slice expired
  (\<^verbatim>\<open>except asyncio.TimeoutError: continue\<close>). The end of the list is the deadline.
  The improved loop appends every message it takes to \<^verbatim>\<open>received_messages\<close> before it
  looks at it; the list is only read after the loop.
\<close>

type_synonym poll = "message option"

text \<open>How the loop was left: by a \<^verbatim>\<open>return message\<close> in its body, or by its guard failing,
  with the \<^verbatim>\<open>received_messages\<close> it had collected.\<close>

datatype wait_exit = Returned message | Deadline "message list"

subsection \<open>\<^verbatim>\<open>ImprovedTradingClient.wait_for_response\<close> (improved\_test.py)\<close>

fun Improved_wait_loop ::
  "string list \<Rightarrow> string option \<Rightarrow> message list \<Rightarrow> poll list \<Rightarrow> wait_exit" where
  "Improved_wait_loop expected_types order_id received_messages [] =
     Deadline received_messages"
| "Improved_wait_loop expected_types order_id received_messages (None # polls) =
     Improved_wait_loop expected_types order_id received_messages polls"
| "Improved_wait_loop expected_types order_id received_messages (Some message # polls) =
     (if py_in (py_get message ''type'') expected_types then
        (if truthy order_id then
           (if py_get message ''clOrdID'' = str_or_none order_id then Returned message
            else Improved_wait_loop expected_types order_id (received_messages @ [message]) polls)
         else Returned message)
      else if py_get message ''type'' = JStr ''ERROR'' then Returned message
      else if py_in (py_get message ''type'') [''TICKER'', ''INVENTORY_UPDATE''] then
        Improved_wait_loop expected_types order_id (received_messages @ [message]) polls
      else if expected_types = [] then Returned message
      else Improved_wait_loop expected_types order_id (received_messages @ [message]) polls)"

definition Improved_wait_for_response ::
  "string list \<Rightarrow> string option \<Rightarrow> poll list \<Rightarrow> message" where
  "Improved_wait_for_response expected_types order_id polls =
     (case Improved_wait_loop expected_types order_id [] polls of
        Returned message \<Rightarrow> message
      | Deadline received_messages \<Rightarrow>
          [(''type'', JStr ''TIMEOUT''),
           (''message'', JStr ''No response received''),
           (''received'', JArr (map JObj received_messages))])"

subsection \<open>\<^verbatim>\<open>CorrectedTestClient.wait_for_response\<close> (corrected\_test.py)\<close>

text \<open>This loop keeps no list of what it received: \<open>None\<close> is the guard failing.\<close>

fun Corrected_wait_loop :: "string list \<Rightarrow> poll list \<Rightarrow> message option" where
  "Corrected_wait_loop expected_types [] = None"
| "Corrected_wait_loop expected_types (None # polls) =
     Corrected_wait_loop expected_types polls"
| "Corrected_wait_loop expected_types (Some message # polls) =
     (if py_in (py_get message ''type'') expected_types then Some message
      else if py_get message ''type'' = JStr ''ERROR'' then Some message
      else if py_in (py_get message ''type'') [''TICKER'', ''INVENTORY_UPDATE''] then
        Corrected_wait_loop expected_types polls
      else Some message)"

definition Corrected_wait_for_response :: "string list \<Rightarrow> poll list \<Rightarrow> message" where
  "Corrected_wait_for_response expected_types polls =
     (case Corrected_wait_loop expected_types polls of
        Some message \<Rightarrow> message
      | None \<Rightarrow> [(''type'', JStr ''TIMEOUT''), (''message'', JStr ''No response received'')])"

text \<open>The messages a wait took from the queue, in order.\<close>

definition observed :: "poll list \<Rightarrow> message list" where
  "observed polls = List.map_filter (\<lambda>p. p) polls"

section \<open>What the environment decides\<close>

text \<open>
  Calls into the websocket library either return or raise; which of the two is an input.
  Log lines are not modelled, nor are the frames written to the socket: no statistic
  reads them.
\<close>

datatype io = IoOk | IoRaises

datatype py_error = ZeroDivisionError | TypeError | ConnectionClosed

section \<open>\<^verbatim>\<open>CorrectedTestClient\<close> (corrected\_test.py)\<close>

text \<open>
  \<open>cc_websocket\<close> is \<^verbatim>\<open>self.websocket\<close>: \<open>None\<close>, or the handle of the connection (named
  by its URL). An entry of \<^verbatim>\<open>self.errors\<close> is the f-string
  \<^verbatim>\<open>f"Order failed: {response}"\<close>, kept as its prefix and the response.
\<close>

record Corrected_client =
  cc_websocket :: "string option"
  cc_running :: bool
  cc_orders_sent :: nat
  cc_orders_success :: nat
  cc_productions_sent :: nat
  cc_productions_success :: nat
  cc_errors :: "(string \<times> message) list"

text \<open>
  The client as \<^verbatim>\<open>__init__\<close> builds it, with the websocket \<^verbatim>\<open>connect\<close> left it (\<^verbatim>\<open>connect\<close>
  writes no other field of the record).
\<close>

definition Corrected_init :: "string option \<Rightarrow> Corrected_client" where
  "Corrected_init ws =
     \<lparr>cc_websocket = ws, cc_running = False, cc_orders_sent = 0, cc_orders_success = 0,
      cc_productions_sent = 0, cc_productions_success = 0, cc_errors = []\<rparr>"

text \<open>\<^verbatim>\<open>send_order\<close>: the order's fields only shape the frame that is written.\<close>

definition Corrected_send_order ::
  "io \<Rightarrow> poll list \<Rightarrow> Corrected_client \<Rightarrow> (py_error + bool) \<times> Corrected_client" where
  "Corrected_send_order send polls c =
     (if cc_websocket c \<noteq> None \<and> send = IoRaises then (Inl ConnectionClosed, c)
      else
        (let c1 = c\<lparr>cc_orders_sent := cc_orders_sent c + 1\<rparr>;
             response = Corrected_wait_for_response [''ORDER_ACK'', ''FILL'', ''ERROR''] polls
         in if py_in (py_get response ''type'') [''ORDER_ACK'', ''FILL''] then
              (Inr True, c1\<lparr>cc_orders_success := cc_orders_success c1 + 1\<rparr>)
            else if py_get response ''type'' = JStr ''ERROR'' then
              (Inr False, c1\<lparr>cc_errors := cc_errors c1 @ [(''Order failed'', response)]\<rparr>)
            else
              (Inr False, c1\<lparr>cc_errors := cc_errors c1 @ [(''Order timeout'', response)]\<rparr>)))"

definition Corrected_send_production ::
  "io \<Rightarrow> poll list \<Rightarrow> Corrected_client \<Rightarrow> (py_error + bool) \<times> Corrected_client" where
  "Corrected_send_production send polls c =
     (if cc_websocket c \<noteq> None \<and> send = IoRaises then (Inl ConnectionClosed, c)
      else
        (let c1 = c\<lparr>cc_productions_sent := cc_productions_sent c + 1\<rparr>;
             response = Corrected_wait_for_response
                          [''PRODUCTION_OK'', ''INVENTORY_UPDATE'', ''ERROR''] polls
         in if py_in (py_get response ''type'') [''PRODUCTION_OK'', ''INVENTORY_UPDATE''] then
              (Inr True, c1\<lparr>cc_productions_success := cc_productions_success c1 + 1\<rparr>)
            else if py_get response ''type'' = JStr ''ERROR'' then
              (Inr False, c1\<lparr>cc_errors := cc_errors c1 @ [(''Production failed'', response)]\<rparr>)
            else if py_get response ''type'' = JStr ''TIMEOUT'' then (Inr True, c1)
            else (Inr True, c1)))"


text \<open>The two report lines of \<^verbatim>\<open>run_corrected_test\<close> that divide: \<open>None\<close> is the line \<^verbatim>\<open>"N/A"\<close>.\<close>

definition Corrected_success_rate :: "nat \<Rightarrow> nat \<Rightarrow> real option" where
  "Corrected_success_rate total_success total_sent =
     (if total_sent > 0 then Some (real total_success / real total_sent * 100) else None)"






section \<open>\<^verbatim>\<open>ImprovedTradingClient\<close> (improved\_test.py)\<close>

record Improved_client =
  ic_websocket :: "string option"
  ic_running :: bool
  ic_orders_sent :: nat
  ic_orders_success :: nat
  ic_productions_sent :: nat
  ic_productions_success :: nat
  ic_errors :: "(string \<times> message) list"

definition Improved_init :: "string option \<Rightarrow> Improved_client" where
  "Improved_init ws =
     \<lparr>ic_websocket = ws, ic_running = False, ic_orders_sent = 0, ic_orders_success = 0,
      ic_productions_sent = 0, ic_productions_success = 0, ic_errors = []\<rparr>"

text \<open>\<^verbatim>\<open>send_order\<close>; \<open>order_id\<close> is what \<^verbatim>\<open>generate_order_id()\<close> returned.\<close>

definition Improved_send_order ::
  "string \<Rightarrow> io \<Rightarrow> poll list \<Rightarrow> Improved_client \<Rightarrow> (py_error + bool) \<times> Improved_client" where
  "Improved_send_order order_id send polls c =
     (if ic_websocket c \<noteq> None then
        (if send = IoRaises then (Inl ConnectionClosed, c)
         else
           (let c1 = c\<lparr>ic_orders_sent := ic_orders_sent c + 1\<rparr>;
                response = Improved_wait_for_response [''ORDER_ACK'', ''FILL'', ''ERROR'']
                             (Some order_id) polls
            in if py_in (py_get response ''type'') [''ORDER_ACK'', ''FILL''] then
                 (Inr True, c1\<lparr>ic_orders_success := ic_orders_success c1 + 1\<rparr>)
               else if py_get response ''type'' = JStr ''ERROR'' then
                 (Inr False, c1\<lparr>ic_errors := ic_errors c1 @ [(''Order failed'', response)]\<rparr>)
               else (Inr False, c1)))
      else (Inr False, c))"

definition Improved_send_production ::
  "io \<Rightarrow> poll list \<Rightarrow> Improved_client \<Rightarrow> (py_error + bool) \<times> Improved_client" where
  "Improved_send_production send polls c =
     (if ic_websocket c \<noteq> None then
        (if send = IoRaises then (Inl ConnectionClosed, c)
         else
           (let c1 = c\<lparr>ic_productions_sent := ic_productions_sent c + 1\<rparr>;
                response = Improved_wait_for_response [''INVENTORY_UPDATE'', ''ERROR''] None polls
            in if py_get response ''type'' = JStr ''INVENTORY_UPDATE'' then
                 (Inr True, c1\<lparr>ic_productions_success := ic_productions_success c1 + 1\<rparr>)
               else if py_get response ''type'' = JStr ''ERROR'' then
                 (Inr False,
                  c1\<lparr>ic_errors := ic_errors c1 @ [(''Production failed'', response)]\<rparr>)
               else
                 (Inr True, c1\<lparr>ic_productions_success := ic_productions_success c1 + 1\<rparr>)))
      else (Inr False, c))"

section \<open>\<^verbatim>\<open>AdvancedTradingClient\<close> (demo\_simulation\_5min.py)\<close>

text \<open>Arithmetic on decoded JSON: a number, or a \<^verbatim>\<open>bool\<close> (Python's 0 and 1), is a number.\<close>

fun as_number :: "jval \<Rightarrow> real option" where
  "as_number (JNum r) = Some r"
| "as_number (JBool b) = Some (if b then 1 else 0)"
| "as_number v = None"

text \<open>Python's truth value of a decoded JSON value.\<close>

fun py_truth :: "jval \<Rightarrow> bool" where
  "py_truth JNull = False"
| "py_truth (JBool b) = b"
| "py_truth (JNum r) = (r \<noteq> 0)"
| "py_truth (JStr s) = (s \<noteq> [])"
| "py_truth (JArr xs) = (xs \<noteq> [])"
| "py_truth (JObj kvs) = (kvs \<noteq> [])"

text \<open>A list or a dict is not hashable: using one as a dict key raises \<^verbatim>\<open>TypeError\<close>.\<close>

fun hashable :: "jval \<Rightarrow> bool" where
  "hashable (JArr xs) = False"
| "hashable (JObj kvs) = False"
| "hashable v = True"

text \<open>An entry of \<^verbatim>\<open>self.pending_orders\<close> (its timestamp is left out).\<close>

record order_info =
  oi_side :: string
  oi_product :: string
  oi_qty :: int
  oi_price :: "real option"
  oi_mode :: string
  oi_status :: jval

text \<open>
  The client's \<^verbatim>\<open>self.stats\<close> dict is flattened into the record (the two timestamps are
  left out). \<open>ac_market_data\<close> maps a product to the ticker message it was last seen in.
\<close>

record Advanced_client =
  ac_websocket :: "string option"
  ac_running :: bool
  ac_orders_sent :: nat
  ac_orders_successful :: nat
  ac_orders_filled :: nat
  ac_productions_sent :: nat
  ac_productions_successful :: nat
  ac_total_profit :: real
  ac_tickers_received :: nat
  ac_fills_received :: nat
  ac_offers_received :: nat
  ac_errors :: "message list"
  ac_market_data :: "(jval \<times> message) list"
  ac_inventory :: jval
  ac_pending_orders :: "(string \<times> order_info) list"

text \<open>
  The client as \<^verbatim>\<open>__init__\<close> builds it, with the websocket \<^verbatim>\<open>connect\<close> left it. The balance
  and the inventory that \<^verbatim>\<open>connect\<close> copies from \<^verbatim>\<open>LOGIN_OK\<close> enter no statistic; the
  inventory starts empty here.
\<close>

definition Advanced_init :: "string option \<Rightarrow> Advanced_client" where
  "Advanced_init ws =
     \<lparr>ac_websocket = ws, ac_running = False, ac_orders_sent = 0, ac_orders_successful = 0,
      ac_orders_filled = 0, ac_productions_sent = 0, ac_productions_successful = 0,
      ac_total_profit = 0, ac_tickers_received = 0, ac_fills_received = 0,
      ac_offers_received = 0, ac_errors = [], ac_market_data = [], ac_inventory = JObj [],
      ac_pending_orders = []\<rparr>"

text \<open>
  The handlers return the exception that leaves them, if any, with the state as the
  statements before the \<^verbatim>\<open>raise\<close> left it.
\<close>

definition process_ticker :: "message \<Rightarrow> Advanced_client \<Rightarrow> py_error option \<times> Advanced_client" where
  "process_ticker data c =
     (let product = py_get data ''product''
      in if py_truth product then
           (if hashable product then
              (None, c\<lparr>ac_market_data := AList.update product data (ac_market_data c)\<rparr>)
            else (Some TypeError, c))
         else (None, c))"

text \<open>
  \<^verbatim>\<open>_process_fill\<close>. \<^verbatim>\<open>price * qty\<close> followed by \<^verbatim>\<open>+=\<close> on a float raises \<^verbatim>\<open>TypeError\<close> unless
  both operands are numbers (a string times an int is a string, which cannot be added).
\<close>

definition process_fill :: "message \<Rightarrow> Advanced_client \<Rightarrow> py_error option \<times> Advanced_client" where
  "process_fill data c =
     (let c1 = c\<lparr>ac_orders_filled := ac_orders_filled c + 1\<rparr>;
          side = py_get data ''side'';
          price = py_get_default data ''fillPrice'' (JNum 0);
          qty = py_get_default data ''fillQty'' (JNum 0)
      in if side = JStr ''SELL'' then
           (case (as_number price, as_number qty) of
              (Some p, Some q) \<Rightarrow> (None, c1\<lparr>ac_total_profit := ac_total_profit c1 + p * q\<rparr>)
            | _ \<Rightarrow> (Some TypeError, c1))
         else if side = JStr ''BUY'' then
           (case (as_number price, as_number qty) of
              (Some p, Some q) \<Rightarrow> (None, c1\<lparr>ac_total_profit := ac_total_profit c1 - p * q\<rparr>)
            | _ \<Rightarrow> (Some TypeError, c1))
         else (None, c1))"

definition process_order_ack ::
  "message \<Rightarrow> Advanced_client \<Rightarrow> py_error option \<times> Advanced_client" where
  "process_order_ack data c =
     (let order_id = py_get data ''clOrdID'';
          status = py_get data ''status''
      in if \<not> hashable order_id then (Some TypeError, c)
         else
           (case order_id of
              JStr oid \<Rightarrow>
                (case map_of (ac_pending_orders c) oid of
                   Some info \<Rightarrow>
                     (let c1 = c\<lparr>ac_pending_orders :=
                                  AList.update oid (info\<lparr>oi_status := status\<rparr>)
                                    (ac_pending_orders c)\<rparr>
                      in if status = JStr ''PENDING'' then
                           (None, c1\<lparr>ac_orders_successful := ac_orders_successful c1 + 1\<rparr>)
                         else (None, c1))
                 | None \<Rightarrow> (None, c))
            | _ \<Rightarrow> (None, c)))"

text \<open>The body of \<^verbatim>\<open>message_listener\<close> for one decoded frame.\<close>

definition Advanced_on_message ::
  "message \<Rightarrow> Advanced_client \<Rightarrow> py_error option \<times> Advanced_client" where
  "Advanced_on_message data c =
     (let msg_type = py_get_default data ''type'' (JStr ''UNKNOWN'')
      in if msg_type = JStr ''TICKER'' then
           process_ticker data (c\<lparr>ac_tickers_received := ac_tickers_received c + 1\<rparr>)
         else if msg_type = JStr ''FILL'' then
           process_fill data (c\<lparr>ac_fills_received := ac_fills_received c + 1\<rparr>)
         else if msg_type = JStr ''OFFER'' then
           (None, c\<lparr>ac_offers_received := ac_offers_received c + 1\<rparr>)
         else if msg_type = JStr ''ORDER_ACK'' then process_order_ack data c
         else if msg_type = JStr ''INVENTORY_UPDATE'' then
           (None, c\<lparr>ac_inventory := py_get_default data ''inventory'' (JObj [])\<rparr>)
         else if msg_type = JStr ''ERROR'' then (None, c\<lparr>ac_errors := ac_errors c @ [data]\<rparr>)
         else (None, c))"

text \<open>\<^verbatim>\<open>send_order\<close>; \<open>order_id\<close> is what \<^verbatim>\<open>generate_order_id()\<close> returned.\<close>

definition Advanced_send_order ::
  "string \<Rightarrow> string \<Rightarrow> string \<Rightarrow> int \<Rightarrow> real option \<Rightarrow> string \<Rightarrow> io \<Rightarrow> Advanced_client
     \<Rightarrow> (py_error + bool) \<times> Advanced_client" where
  "Advanced_send_order order_id side product quantity limit_price mode send c =
     (let c1 = c\<lparr>ac_pending_orders :=
                  AList.update order_id
                    \<lparr>oi_side = side, oi_product = product, oi_qty = quantity,
                     oi_price = limit_price, oi_mode = mode, oi_status = JStr ''SENT''\<rparr>
                    (ac_pending_orders c)\<rparr>
      in if ac_websocket c1 \<noteq> None then
           (if send = IoRaises then (Inl ConnectionClosed, c1)
            else (Inr True, c1\<lparr>ac_orders_sent := ac_orders_sent c1 + 1\<rparr>))
         else (Inr False, c1))"

definition Advanced_send_production ::
  "io \<Rightarrow> Advanced_client \<Rightarrow> (py_error + bool) \<times> Advanced_client" where
  "Advanced_send_production send c =
     (if ac_websocket c \<noteq> None then
        (if send = IoRaises then (Inl ConnectionClosed, c)
         else (Inr True,
               c\<lparr>ac_productions_sent := ac_productions_sent c + 1,
                 ac_productions_successful := ac_productions_successful c + 1\<rparr>))
      else (Inr False, c))"

definition Advanced_disconnect ::
  "io \<Rightarrow> Advanced_client \<Rightarrow> py_error option \<times> Advanced_client" where
  "Advanced_disconnect close c =
     (let c1 = c\<lparr>ac_running := False\<rparr>
      in case ac_websocket c1 of
           None \<Rightarrow> (None, c1)
         | Some ws \<Rightarrow> (case close of IoOk \<Rightarrow> (None, c1) | IoRaises \<Rightarrow> (None, c1)))"

text \<open>The rates of \<^verbatim>\<open>get_performance_summary\<close>: each divides by \<^verbatim>\<open>max(1, ...)\<close>.\<close>

record performance_summary =
  ps_orders_sent :: nat
  ps_orders_successful :: nat
  ps_orders_filled :: nat
  ps_order_success_rate :: real
  ps_fill_rate :: real
  ps_productions_sent :: nat
  ps_productions_successful :: nat
  ps_production_success_rate :: real
  ps_total_profit :: real

definition get_performance_summary :: "Advanced_client \<Rightarrow> performance_summary" where
  "get_performance_summary c =
         \<lparr>ps_orders_sent = ac_orders_sent c,
          ps_orders_successful = ac_orders_successful c,
          ps_orders_filled = ac_orders_filled c,
          ps_order_success_rate = real (ac_orders_successful c) / real (max 1 (ac_orders_sent c)),
          ps_fill_rate = real (ac_orders_filled c) / real (max 1 (ac_orders_successful c)),
          ps_productions_sent = ac_productions_sent c,
          ps_productions_successful = ac_productions_successful c,
          ps_production_success_rate =
            real (ac_productions_successful c) / real (max 1 (ac_productions_sent c)),
          ps_total_profit = ac_total_profit c\<rparr>"

text \<open>A session of the client: calls of the strategy and frames handled by the listener.\<close>

datatype Advanced_op =
    ASendOrder string string string int "real option" string io
  | ASendProduction io
  | AReceive message
  | ADisconnect io

fun Advanced_step :: "Advanced_op \<Rightarrow> Advanced_client \<Rightarrow> Advanced_client" where
  "Advanced_step (ASendOrder order_id side product quantity limit_price mode send) c =
     snd (Advanced_send_order order_id side product quantity limit_price mode send c)"
| "Advanced_step (ASendProduction send) c = snd (Advanced_send_production send c)"
| "Advanced_step (AReceive data) c = snd (Advanced_on_message data c)"
| "Advanced_step (ADisconnect close) c = snd (Advanced_disconnect close c)"

definition Advanced_run :: "Advanced_op list \<Rightarrow> Advanced_client \<Rightarrow> Advanced_client" where
  "Advanced_run ops c = fold Advanced_step ops c"

section \<open>\<^verbatim>\<open>TradingClient\<close> and \<^verbatim>\<open>TradingSimulation\<close> (trading\_simulation.py)\<close>

record OrderStats =
  total_orders :: nat
  successful_orders :: nat
  failed_orders :: nat
  first_fills :: nat
  order_times :: "real list"

text \<open>\<^verbatim>\<open>ClientState\<close> without its balance, inventory and timestamps.\<close>

record ClientState =
  orders_placed :: nat
  orders_filled :: nat
  production_count :: nat
  is_connected :: bool
  stats :: OrderStats

record TradingClient =
  tc_token :: string
  tc_state :: ClientState
  tc_websocket :: "string option"
  tc_running :: bool



text \<open>
  \<^verbatim>\<open>generate_final_report\<close>: the figures it computes and prints, in the order it computes
  them. \<^verbatim>\<open>total_successful/total_orders*100\<close> is the first division.
\<close>

record final_report =
  fr_connected_clients :: nat
  fr_total_orders :: nat
  fr_total_successful :: nat
  fr_successful_pct :: real
  fr_total_failed :: nat
  fr_failed_pct :: real
  fr_total_production :: nat
  fr_total_fills :: nat
  fr_avg_response_time :: real

definition py_div :: "nat \<Rightarrow> nat \<Rightarrow> py_error + real" where
  "py_div a b = (if b = 0 then Inl ZeroDivisionError else Inr (real a / real b))"

definition generate_final_report :: "TradingClient list \<Rightarrow> py_error + final_report" where
  "generate_final_report clients =
     (let total_orders = sum_list (map (\<lambda>client. total_orders (stats (tc_state client))) clients);
          total_successful =
            sum_list (map (\<lambda>client. successful_orders (stats (tc_state client))) clients);
          total_failed = sum_list (map (\<lambda>client. failed_orders (stats (tc_state client))) clients);
          total_production = sum_list (map (\<lambda>client. production_count (tc_state client)) clients);
          total_fills = sum_list (map (\<lambda>client. orders_filled (tc_state client)) clients);
          all_response_times = concat (map (\<lambda>client. order_times (stats (tc_state client))) clients);
          avg_response_time =
            (if all_response_times \<noteq> []
             then sum_list all_response_times / real (length all_response_times) else 0)
      in case py_div total_successful total_orders of
           Inl e \<Rightarrow> Inl e
         | Inr s \<Rightarrow>
             (case py_div total_failed total_orders of
                Inl e \<Rightarrow> Inl e
              | Inr f \<Rightarrow>
                  Inr \<lparr>fr_connected_clients = length clients,
                       fr_total_orders = total_orders,
                       fr_total_successful = total_successful,
                       fr_successful_pct = s * 100,
                       fr_total_failed = total_failed,
                       fr_failed_pct = f * 100,
                       fr_total_production = total_production,
                       fr_total_fills = total_fills,
                       fr_avg_response_time = avg_response_time\<rparr>))"

section \<open>Properties of the response correlator\<close>


text \<open>When the improved loop runs to its deadline, its list is what it took from the queue.\<close>

lemma Improved_wait_loop_deadline:
  "Improved_wait_loop expected_types order_id received_messages polls = Deadline r
     \<Longrightarrow> r = received_messages @ observed polls"
proof (induction polls arbitrary: received_messages)
  case Nil
  then show ?case by (simp add: observed_def List.map_filter_simps)
next
  case (Cons p polls)
  show ?case
  proof (cases p)
    case None
    with Cons show ?thesis by (simp add: observed_def List.map_filter_simps)
  next
    case (Some message)
    with Cons.prems have
      "Improved_wait_loop expected_types order_id (received_messages @ [message]) polls = Deadline r"
      by (simp split: if_splits)
    from Cons.IH [OF this] Some show ?thesis
      by (simp add: observed_def List.map_filter_simps)
  qed
qed



text \<open>
  Claim C2, as the code has it. When the improved client's loop reaches its deadline, the
  result is the \<^verbatim>\<open>TIMEOUT\<close> dict whose \<^verbatim>\<open>received\<close> entry lists exactly the messages taken from
  the queue during the wait, in order (the empty list when there were none). The
  corrected client's loop keeps no such list: its \<^verbatim>\<open>TIMEOUT\<close> dict has the two entries
  \<^verbatim>\<open>type\<close> and \<^verbatim>\<open>message\<close> only.
\<close>

theorem wait_for_response_timeout_carries_observed:
  "(Improved_wait_loop expected_types order_id [] polls = Deadline r \<longrightarrow>
      r = observed polls \<and>
      Improved_wait_for_response expected_types order_id polls =
        [(''type'', JStr ''TIMEOUT''), (''message'', JStr ''No response received''),
         (''received'', JArr (map JObj (observed polls)))])
   \<and> (Corrected_wait_loop expected_types polls = None \<longrightarrow>
      Corrected_wait_for_response expected_types polls =
        [(''type'', JStr ''TIMEOUT''), (''message'', JStr ''No response received'')])"
  using Improved_wait_loop_deadline [of expected_types order_id "[]" polls r]
  by (auto simp: Improved_wait_for_response_def Corrected_wait_for_response_def)

theorem wait_for_response_timeout_carries_observed_witness:
  "Improved_wait_loop [''ORDER_ACK''] None []
        [Some [(''type'', JStr ''TICKER''), (''product'', JStr ''FOSFO'')], None]
       = Deadline [[(''type'', JStr ''TICKER''), (''product'', JStr ''FOSFO'')]]
   \<and> Improved_wait_for_response [''ORDER_ACK''] None
        [Some [(''type'', JStr ''TICKER''), (''product'', JStr ''FOSFO'')], None]
       = [(''type'', JStr ''TIMEOUT''), (''message'', JStr ''No response received''),
          (''received'', JArr [JObj [(''type'', JStr ''TICKER''), (''product'', JStr ''FOSFO'')]])]
   \<and> Corrected_wait_loop [''ORDER_ACK'']
        [Some [(''type'', JStr ''TICKER''), (''product'', JStr ''FOSFO'')], None] = None
   \<and> Corrected_wait_for_response [''ORDER_ACK'']
        [Some [(''type'', JStr ''TICKER''), (''product'', JStr ''FOSFO'')], None]
       = [(''type'', JStr ''TIMEOUT''), (''message'', JStr ''No response received'')]"
proof -
  have d: "Improved_wait_loop [''ORDER_ACK''] None []
        [Some [(''type'', JStr ''TICKER''), (''product'', JStr ''FOSFO'')], None]
       = Deadline [[(''type'', JStr ''TICKER''), (''product'', JStr ''FOSFO'')]]"
    by (simp add: py_in_def py_get_def)
  have n: "Corrected_wait_loop [''ORDER_ACK'']
        [Some [(''type'', JStr ''TICKER''), (''product'', JStr ''FOSFO'')], None] = None"
    by (simp add: py_in_def py_get_def)
  show ?thesis
    using d n wait_for_response_timeout_carries_observed [where expected_types = "[''ORDER_ACK'']"
        and order_id = None
        and polls = "[Some [(''type'', JStr ''TICKER''), (''product'', JStr ''FOSFO'')], None]"
        and r = "[[(''type'', JStr ''TICKER''), (''product'', JStr ''FOSFO'')]]"]
    by (simp add: observed_def List.map_filter_simps)
qed

text \<open>The corrected client's timeout carries no list, with or without messages observed.\<close>

theorem wait_for_response_timeout_counterexample:
  "map_of (Corrected_wait_for_response [''ORDER_ACK''] []) ''received'' = None
   \<and> map_of (Corrected_wait_for_response [''ORDER_ACK'']
        [Some [(''type'', JStr ''TICKER''), (''product'', JStr ''FOSFO'')], None]) ''received'' = None"
  by (simp add: Corrected_wait_for_response_def py_in_def py_get_def)







section \<open>Order accounting\<close>






section \<open>Profit and loss\<close>




section \<open>The final reports\<close>

text \<open>\<^verbatim>\<open>generate_final_report\<close> raises exactly when no order was placed.\<close>

lemma generate_final_report_raises_iff:
  "generate_final_report clients = Inl ZeroDivisionError
     \<longleftrightarrow> sum_list (map (\<lambda>client. total_orders (stats (tc_state client))) clients) = 0"
  by (simp add: generate_final_report_def py_div_def Let_def)

text \<open>The sibling reports do not: one prints \<^verbatim>\<open>N/A\<close>, the other divides by \<^verbatim>\<open>max(1, 0)\<close>.\<close>

lemma Corrected_success_rate_zero_sent:
  "Corrected_success_rate total_success 0 = None"
  by (simp add: Corrected_success_rate_def)

lemma get_performance_summary_zero_sent:
  "ac_orders_sent c = 0 \<Longrightarrow>
     ps_order_success_rate (get_performance_summary c) = real (ac_orders_successful c)"
  by (simp add: get_performance_summary_def)


section \<open>Timeouts\<close>

text \<open>
  Claim C8, as the code has it. When the wait ends at its deadline:
  \<^verbatim>\<open>CorrectedTestClient.send_production\<close> counts the production as sent only (neither
  success nor error) and returns \<^verbatim>\<open>True\<close>; \<^verbatim>\<open>CorrectedTestClient.send_order\<close> appends an
  \<^verbatim>\<open>Order timeout\<close> entry to \<^verbatim>\<open>errors\<close>; \<^verbatim>\<open>ImprovedTradingClient.send_production\<close> counts the
  production as a success; \<^verbatim>\<open>ImprovedTradingClient.send_order\<close> counts the order as sent
  only and returns \<^verbatim>\<open>False\<close>.
\<close>

theorem timeout_outcome_recorded:
  "(Corrected_wait_loop [''PRODUCTION_OK'', ''INVENTORY_UPDATE'', ''ERROR''] polls = None \<longrightarrow>
      Corrected_send_production IoOk polls cc =
        (Inr True, cc\<lparr>cc_productions_sent := cc_productions_sent cc + 1\<rparr>))
   \<and> (Corrected_wait_loop [''ORDER_ACK'', ''FILL'', ''ERROR''] polls = None \<longrightarrow>
      Corrected_send_order IoOk polls cc =
        (Inr False,
         cc\<lparr>cc_orders_sent := cc_orders_sent cc + 1,
             cc_errors := cc_errors cc @
               [(''Order timeout'',
                 [(''type'', JStr ''TIMEOUT''), (''message'', JStr ''No response received'')])]\<rparr>))
   \<and> (ic_websocket ic \<noteq> None
        \<and> Improved_wait_loop [''INVENTORY_UPDATE'', ''ERROR''] None [] polls = Deadline r \<longrightarrow>
      Improved_send_production IoOk polls ic =
        (Inr True, ic\<lparr>ic_productions_sent := ic_productions_sent ic + 1,
                       ic_productions_success := ic_productions_success ic + 1\<rparr>))
   \<and> (ic_websocket ic \<noteq> None
        \<and> Improved_wait_loop [''ORDER_ACK'', ''FILL'', ''ERROR''] (Some order_id) [] polls
            = Deadline r \<longrightarrow>
      Improved_send_order order_id IoOk polls ic =
        (Inr False, ic\<lparr>ic_orders_sent := ic_orders_sent ic + 1\<rparr>))"
  by (simp add: Corrected_send_production_def Corrected_send_order_def
      Improved_send_production_def Improved_send_order_def
      Corrected_wait_for_response_def Improved_wait_for_response_def py_in_def py_get_def Let_def)

theorem timeout_outcome_recorded_witness:
  "Corrected_wait_loop [''PRODUCTION_OK'', ''INVENTORY_UPDATE'', ''ERROR''] [None, None, None] = None
   \<and> Corrected_send_production IoOk [None, None, None]
        (Corrected_init (Some ''wss://trading.hellsoft.tech/ws''))
       = (Inr True, (Corrected_init (Some ''wss://trading.hellsoft.tech/ws''))
                       \<lparr>cc_productions_sent := 1\<rparr>)
   \<and> Corrected_wait_loop [''ORDER_ACK'', ''FILL'', ''ERROR''] [None, None, None] = None
   \<and> cc_orders_success (snd (Corrected_send_order IoOk [None, None, None]
        (Corrected_init (Some ''wss://trading.hellsoft.tech/ws'')))) = 0
   \<and> ic_websocket (Improved_init (Some ''wss://trading.hellsoft.tech/ws'')) \<noteq> None
   \<and> Improved_wait_loop [''INVENTORY_UPDATE'', ''ERROR''] None [] [None, None, None] = Deadline []
   \<and> Improved_wait_loop [''ORDER_ACK'', ''FILL'', ''ERROR''] (Some ''ORD-0000000a'') []
        [None, None, None] = Deadline []
   \<and> Improved_send_order ''ORD-0000000a'' IoOk [None, None, None]
        (Improved_init (Some ''wss://trading.hellsoft.tech/ws''))
       = (Inr False, (Improved_init (Some ''wss://trading.hellsoft.tech/ws''))
                        \<lparr>ic_orders_sent := 1\<rparr>)"
proof -
  have h1: "Corrected_wait_loop [''PRODUCTION_OK'', ''INVENTORY_UPDATE'', ''ERROR'']
              [None, None, None] = None"
    by simp
  have h2: "Corrected_wait_loop [''ORDER_ACK'', ''FILL'', ''ERROR''] [None, None, None] = None"
    by simp
  have h3: "ic_websocket (Improved_init (Some ''wss://trading.hellsoft.tech/ws'')) \<noteq> None"
    by (simp add: Improved_init_def)
  have h4: "Improved_wait_loop [''INVENTORY_UPDATE'', ''ERROR''] None [] [None, None, None]
              = Deadline []"
    by simp
  have h5: "Improved_wait_loop [''ORDER_ACK'', ''FILL'', ''ERROR''] (Some ''ORD-0000000a'') []
              [None, None, None] = Deadline []"
    by simp
  show ?thesis
    using h1 h2 h3 h4 h5
      timeout_outcome_recorded [where polls = "[None, None, None]"
        and cc = "Corrected_init (Some ''wss://trading.hellsoft.tech/ws'')"
        and ic = "Improved_init (Some ''wss://trading.hellsoft.tech/ws'')"
        and order_id = "''ORD-0000000a''" and r = "[]"]
    by (simp add: Corrected_init_def Improved_init_def)
qed

text \<open>A production of the improved client that times out is a success in its counters.\<close>

theorem timeout_outcome_counterexample:
  "Improved_wait_loop [''INVENTORY_UPDATE'', ''ERROR''] None [] [None, None, None] = Deadline []
   \<and> ic_productions_success (Improved_init (Some ''wss://trading.hellsoft.tech/ws'')) = 0
   \<and> ic_productions_success (snd (Improved_send_production IoOk [None, None, None]
        (Improved_init (Some ''wss://trading.hellsoft.tech/ws'')))) = 1"
  by (simp add: Improved_send_production_def Improved_init_def Improved_wait_for_response_def
      py_get_def Let_def)

section \<open>Disconnecting twice\<close>



section \<open>Productions of the advanced client\<close>

text \<open>No operation of the advanced client separates the two production counters.\<close>

lemma Advanced_step_productions:
  assumes "ac_productions_successful c = ac_productions_sent c"
  shows "ac_productions_successful (Advanced_step op c) = ac_productions_sent (Advanced_step op c)"
proof (cases op)
  case (ASendOrder order_id side product quantity limit_price mode send)
  with assms show ?thesis
    by (simp add: Advanced_send_order_def Let_def)
next
  case (ASendProduction send)
  with assms show ?thesis
    by (simp add: Advanced_send_production_def)
next
  case (AReceive data)
  with assms show ?thesis
    by (simp add: Advanced_on_message_def process_ticker_def process_fill_def
        process_order_ack_def Let_def split: option.splits jval.splits)
next
  case (ADisconnect close)
  with assms show ?thesis
    by (simp add: Advanced_disconnect_def Let_def split: option.splits io.splits)
qed

lemma Advanced_run_productions:
  "ac_productions_successful c = ac_productions_sent c
   \<Longrightarrow> ac_productions_successful (Advanced_run ops c) = ac_productions_sent (Advanced_run ops c)"
  unfolding Advanced_run_def
proof (induction ops arbitrary: c)
  case Nil
  then show ?case by simp
next
  case (Cons op ops)
  from Cons.IH [OF Advanced_step_productions [OF Cons.prems]] show ?case by simp
qed

text \<open>
  Claim C10, as the code has it. After every sequence of operations on a fresh advanced
  client \<^verbatim>\<open>productions_successful\<close> equals \<^verbatim>\<open>productions_sent\<close>; a \<^verbatim>\<open>send_production\<close> with a
  websocket whose send returns adds 1 to both, with no response consulted; the
  production success rate of \<^verbatim>\<open>get_performance_summary\<close> is 1 once a production was sent,
  and 0 before.
\<close>

theorem productions_successful_eq_sent:
  "ac_productions_successful (Advanced_run ops (Advanced_init ws))
     = ac_productions_sent (Advanced_run ops (Advanced_init ws))
   \<and> ps_production_success_rate (get_performance_summary (Advanced_run ops (Advanced_init ws)))
     = (if ac_productions_sent (Advanced_run ops (Advanced_init ws)) = 0 then 0 else 1)
   \<and> (ac_websocket c \<noteq> None \<longrightarrow>
        Advanced_send_production IoOk c =
          (Inr True, c\<lparr>ac_productions_sent := ac_productions_sent c + 1,
                       ac_productions_successful := ac_productions_successful c + 1\<rparr>))"
proof -
  have inv: "ac_productions_successful (Advanced_run ops (Advanced_init ws))
     = ac_productions_sent (Advanced_run ops (Advanced_init ws))"
    by (rule Advanced_run_productions) (simp add: Advanced_init_def)
  show ?thesis
    by (simp add: inv get_performance_summary_def Advanced_send_production_def)
qed

theorem productions_successful_eq_sent_witness:
  "ac_websocket (Advanced_init (Some ''wss://trading.hellsoft.tech/ws'')) \<noteq> None
   \<and> ac_productions_sent (Advanced_run [ASendProduction IoOk, ASendProduction IoOk]
        (Advanced_init (Some ''wss://trading.hellsoft.tech/ws''))) = 2
   \<and> ac_productions_successful (Advanced_run [ASendProduction IoOk, ASendProduction IoOk]
        (Advanced_init (Some ''wss://trading.hellsoft.tech/ws''))) = 2
   \<and> ps_production_success_rate (get_performance_summary
        (Advanced_run [ASendProduction IoOk, ASendProduction IoOk]
          (Advanced_init (Some ''wss://trading.hellsoft.tech/ws'')))) = 1"
proof -
  have h: "ac_websocket (Advanced_init (Some ''wss://trading.hellsoft.tech/ws'')) \<noteq> None"
    by (simp add: Advanced_init_def)
  have s: "ac_productions_sent (Advanced_run [ASendProduction IoOk, ASendProduction IoOk]
        (Advanced_init (Some ''wss://trading.hellsoft.tech/ws''))) = 2"
    by (simp add: Advanced_run_def Advanced_send_production_def Advanced_init_def)
  show ?thesis
    using h s productions_successful_eq_sent [where ops = "[ASendProduction IoOk, ASendProduction IoOk]"
        and ws = "Some ''wss://trading.hellsoft.tech/ws''"
        and c = "Advanced_init (Some ''wss://trading.hellsoft.tech/ws'')"]
    by simp
qed

text \<open>A client that sent no production reports the rate 0, not 100 percent.\<close>

theorem production_success_rate_counterexample:
  "ac_productions_sent (Advanced_run [] (Advanced_init (Some ''wss://trading.hellsoft.tech/ws'')))
     = ac_productions_successful
         (Advanced_run [] (Advanced_init (Some ''wss://trading.hellsoft.tech/ws'')))
   \<and> ps_production_success_rate (get_performance_summary
        (Advanced_run [] (Advanced_init (Some ''wss://trading.hellsoft.tech/ws'')))) = 0
   \<and> ps_production_success_rate (get_performance_summary
        (Advanced_run [ASendOrder ''ING-0000000a'' ''BUY'' ''GUACA'' 2 (Some 31.5) ''LIMIT'' IoOk]
          (Advanced_init (Some ''wss://trading.hellsoft.tech/ws'')))) = 0"
  by (simp add: Advanced_run_def Advanced_init_def get_performance_summary_def
      Advanced_send_order_def Let_def)

end
